theory Spec2Isabelle
  imports Complex_Main
begin

section \<open>The dashboard WebSocket client (dashboard/js/websocket-client.js)\<close>

text \<open>
  The class \<open>CrewAIDashboardClient\<close> keeps one WebSocket, reconnects after a close, sends a
  ping on an interval timer and applies every inbound JSON message to the page. The page
  (the DOM) is the only store the client writes to; it is modelled by the record \<open>page\<close>
  below. Every handler is a function from the state before to the state after. A handler
  that can raise returns an \<open>outcome\<close>, which keeps the state reached when the exception
  left the handler, since a JavaScript exception does not undo earlier writes.
\<close>

subsection \<open>JSON values and the platform's conversions\<close>

text \<open>
  \<open>JSON.parse\<close> belongs to the platform: a frame is given by what \<open>JSON.parse\<close> makes
  of it. An object is the list of its own properties in enumeration order, with distinct
  keys. \<open>None\<close> of type \<open>json option\<close> is JavaScript's \<open>undefined\<close>. A string is the list of
  the bytes of its UTF-8 form.
\<close>

datatype json =
    JNull
  | JBool bool
  | JNum rat
  | JStr string
  | JArr "json list"
  | JObj "(string \<times> json) list"

datatype frame = Unparseable | Parsed json

datatype js_error = TypeError | SyntaxError

text \<open>
  \<open>Done\<close>: the handler returned. \<open>Thrown\<close>: it raised. \<open>Beyond\<close>: it reached a call whose
  result depends on how the browser reads an id as a CSS selector, or a text as HTML, in a
  case the model leaves open (\<open>css_string_value\<close> and \<open>html_plain\<close> below say which); the
  state it carries is the state before that call, and nothing is said of the state after.
\<close>

datatype 'a outcome = Done 'a | Thrown js_error 'a | Beyond 'a

fun state_of :: "'a outcome \<Rightarrow> 'a" where
  "state_of (Done s) = s"
| "state_of (Thrown e s) = s"
| "state_of (Beyond s) = s"

fun is_beyond :: "'a outcome \<Rightarrow> bool" where
  "is_beyond (Beyond s) = True"
| "is_beyond r = False"

fun and_then :: "'a outcome \<Rightarrow> ('a \<Rightarrow> 'a outcome) \<Rightarrow> 'a outcome" where
  "and_then (Done s) f = f s"
| "and_then (Thrown e s) f = Thrown e s"
| "and_then (Beyond s) f = Beyond s"

text \<open>\<open>xs.forEach(f)\<close> and \<open>for (... of xs)\<close>: the first exception ends the loop.\<close>

fun for_each :: "('x \<Rightarrow> 'a \<Rightarrow> 'a outcome) \<Rightarrow> 'x list \<Rightarrow> 'a \<Rightarrow> 'a outcome" where
  "for_each f [] s = Done s"
| "for_each f (x # xs) s = and_then (f x s) (for_each f xs)"

text \<open>
  Three conversions are left to the platform: the text of a number (\<open>String(n)\<close>), the
  number a string denotes (\<open>Number(s)\<close>, \<open>None\<close> for \<open>NaN\<close>), and the one-unit strings a
  string is made of (its UTF-16 code units, which \<open>Object.entries\<close> of a string lists).
  The text of a number is made of digits, a sign, a point and an exponent mark: it is
  written into markup as it is.
\<close>

record platform =
  numToString :: "rat \<Rightarrow> string"
  parseNumber :: "string \<Rightarrow> rat option"
  codeUnits :: "string \<Rightarrow> string list"

text \<open>Property access \<open>v.k\<close> on a value that is not \<open>null\<close>.\<close>

definition get :: "json \<Rightarrow> string \<Rightarrow> json option" where
  "get v k = (case v of JObj kvs \<Rightarrow> map_of kvs k | _ \<Rightarrow> None)"

fun truthy :: "json option \<Rightarrow> bool" where
  "truthy None = False"
| "truthy (Some JNull) = False"
| "truthy (Some (JBool b)) = b"
| "truthy (Some (JNum n)) = (n \<noteq> 0)"
| "truthy (Some (JStr s)) = (s \<noteq> [])"
| "truthy (Some (JArr vs)) = True"
| "truthy (Some (JObj kvs)) = True"

text \<open>
  \<open>String(v)\<close>, with \<open>None\<close> for the \<open>TypeError\<close> of an object that cannot be converted: a
  parsed object whose own property \<open>toString\<close> hides the method of \<open>Object.prototype\<close> (no
  JSON value is callable, and \<open>valueOf\<close> gives back the object). The elements of an array
  are joined by commas, \<open>null\<close> counting as the empty string.
\<close>

fun js_String :: "platform \<Rightarrow> json \<Rightarrow> string option"
  and join_elems :: "platform \<Rightarrow> json list \<Rightarrow> string option" where
  "js_String P JNull = Some ''null''"
| "js_String P (JBool b) = Some (if b then ''true'' else ''false'')"
| "js_String P (JNum n) = Some (numToString P n)"
| "js_String P (JStr s) = Some s"
| "js_String P (JArr vs) = join_elems P vs"
| "js_String P (JObj kvs) = (if map_of kvs ''toString'' = None then Some ''[object Object]'' else None)"
| "join_elems P [] = Some []"
| "join_elems P (v # vs) =
     (case (if v = JNull then Some [] else js_String P v) of
        None \<Rightarrow> None
      | Some a \<Rightarrow>
          if vs = [] then Some a
          else (case join_elems P vs of None \<Rightarrow> None | Some b \<Rightarrow> Some (a @ '','' @ b)))"

fun is_number :: "json option \<Rightarrow> bool" where
  "is_number (Some (JNum n)) = True"
| "is_number v = False"

text \<open>\<open>v || 0\<close>.\<close>

fun or_zero :: "json option \<Rightarrow> json" where
  "or_zero None = JNum 0"
| "or_zero (Some v) = (if truthy (Some v) then v else JNum 0)"

text \<open>A value inside a template literal: \<open>`${v}`\<close>.\<close>

fun tmpl :: "platform \<Rightarrow> json option \<Rightarrow> string option" where
  "tmpl P None = Some ''undefined''"
| "tmpl P (Some v) = js_String P v"

text \<open>Assigning a value to \<open>textContent\<close>: \<open>null\<close> gives the empty text.\<close>

definition as_textContent :: "platform \<Rightarrow> json \<Rightarrow> string option" where
  "as_textContent P v = (if v = JNull then Some [] else js_String P v)"

definition digit_char :: "nat \<Rightarrow> char" where
  "digit_char d = char_of (48 + d)"

function string_of_nat :: "nat \<Rightarrow> string" where
  "string_of_nat n = (if n < 10 then [digit_char n] else string_of_nat (n div 10) @ [digit_char (n mod 10)])"
  by pat_completeness auto
termination
  by (relation "measure id") auto

declare string_of_nat.simps [simp del]

definition string_of_int :: "int \<Rightarrow> string" where
  "string_of_int k = (if k < 0 then ''-'' @ string_of_nat (nat (- k)) else string_of_nat (nat k))"

text \<open>
  \<open>n.toFixed(1)\<close>, as ECMAScript defines it: the sign, then for a magnitude of at least
  \<open>10^21\<close> the text \<open>String\<close> gives, and below it the integer closest to ten times the
  magnitude, the larger one on a tie, printed with one digit after the point.
\<close>

definition toFixed1 :: "platform \<Rightarrow> rat \<Rightarrow> string" where
  "toFixed1 P x =
     (if x < 0 then ''-'' else []) @
     (if \<bar>x\<bar> \<ge> 10 ^ 21 then numToString P \<bar>x\<bar>
      else (let n = nat \<lfloor>\<bar>x\<bar> * 10 + 1 / 2\<rfloor>
            in string_of_nat (n div 10) @ ''.'' @ [digit_char (n mod 10)]))"

text \<open>
  \<open>Number(v)\<close>: a number, \<open>NaN\<close>, or the \<open>TypeError\<close> of an object that cannot be
  converted. \<open>String(Math.round(v))\<close>: \<open>Math.round\<close> rounds a tie upwards, and the text of
  a whole number has all its digits below \<open>10^21\<close>.
\<close>

datatype number_result = Num rat | NaN | NoNumber

fun toNumber :: "platform \<Rightarrow> json \<Rightarrow> number_result" where
  "toNumber P JNull = Num 0"
| "toNumber P (JBool b) = Num (if b then 1 else 0)"
| "toNumber P (JNum n) = Num n"
| "toNumber P v =
     (case js_String P v of
        None \<Rightarrow> NoNumber
      | Some s \<Rightarrow> (case parseNumber P s of None \<Rightarrow> NaN | Some n \<Rightarrow> Num n))"

definition round_text :: "platform \<Rightarrow> json \<Rightarrow> string option" where
  "round_text P v =
     (case toNumber P v of
        NoNumber \<Rightarrow> None
      | NaN \<Rightarrow> Some ''NaN''
      | Num n \<Rightarrow>
          (let k = \<lfloor>n + 1 / 2\<rfloor>
           in Some (if \<bar>k\<bar> \<ge> 10 ^ 21 then numToString P (of_int k) else string_of_int k)))"

text \<open>\<open>Object.entries(v)\<close> for a truthy value.\<close>

definition index_keys :: "nat \<Rightarrow> string list" where
  "index_keys n = map string_of_nat [0..<n]"

fun object_entries :: "platform \<Rightarrow> json \<Rightarrow> (string \<times> json) list" where
  "object_entries P (JObj kvs) = kvs"
| "object_entries P (JArr vs) = zip (index_keys (length vs)) vs"
| "object_entries P (JStr s) = zip (index_keys (length (codeUnits P s))) (map JStr (codeUnits P s))"
| "object_entries P v = []"

subsection \<open>Ids in selectors and texts in markup\<close>

text \<open>
  The client writes ids into selectors, \<open>[data-agent-id="${agentId}"]\<close>, and texts into
  markup assigned to \<open>innerHTML\<close>, without escaping them. \<open>css_string_value s\<close> is what the
  browser makes of \<open>s\<close> between the double quotes of such a selector:
  \<^item> \<open>Value v\<close>: the selector is well formed and selects the elements whose attribute is
    \<open>v\<close>. Ordinary characters stand for themselves, and a backslash before a character
    that is no hexadecimal digit and no line break stands for that character.
  \<^item> \<open>Invalid\<close>: the selector is not well formed and \<open>querySelector\<close> raises a \<open>SyntaxError\<close>:
    a line break inside the string, or a double quote that ends the string early with
    nothing after it that could take up the rest (no bracket, parenthesis, backslash,
    slash or further quote).
  \<^item> \<open>Undetermined\<close>: every other case (a hexadecimal escape, a NUL, a backslash at the
    end, a double quote followed by more selector text); the model leaves it open.
\<close>

datatype css_value = Value string | Invalid | Undetermined

definition css_newline :: "char \<Rightarrow> bool" where
  "css_newline c = (c = CHR 0x0A \<or> c = CHR 0x0D \<or> c = CHR 0x0C)"

definition hex_digit :: "char \<Rightarrow> bool" where
  "hex_digit c = (c \<in> set ''0123456789abcdefABCDEF'')"

definition takes_up_rest :: "char \<Rightarrow> bool" where
  "takes_up_rest c = (c = CHR 0x22 \<or> c = CHR ''['' \<or> c = CHR ''('' \<or> c = CHR 0x5C \<or> c = CHR ''/'')"

fun cons_value :: "char \<Rightarrow> css_value \<Rightarrow> css_value" where
  "cons_value c (Value v) = Value (c # v)"
| "cons_value c r = r"

fun css_string_value :: "string \<Rightarrow> css_value" where
  "css_string_value [] = Value []"
| "css_string_value [c] =
     (if c = CHR 0x22 \<or> css_newline c then Invalid
      else if c = CHR 0x00 \<or> c = CHR 0x5C then Undetermined
      else Value [c])"
| "css_string_value (c # d # ds) =
     (if c = CHR 0x22 then (if list_ex takes_up_rest (d # ds) then Undetermined else Invalid)
      else if css_newline c then Invalid
      else if c = CHR 0x00 then Undetermined
      else if c = CHR 0x5C
      then (if hex_digit d \<or> css_newline d \<or> d = CHR 0x00 then Undetermined
            else cons_value d (css_string_value ds))
      else cons_value c (css_string_value (d # ds)))"

text \<open>
  A text placed between two tags of the markup stands for itself when it has no \<open><\<close>, no
  \<open>&\<close>, no NUL and no carriage return; the model leaves every other text open.
\<close>

definition html_plain :: "string \<Rightarrow> bool" where
  "html_plain s = (\<not> list_ex (\<lambda>c. c = CHR ''<'' \<or> c = CHR ''&'' \<or> c = CHR 0x00 \<or> c = CHR 0x0D) s)"


subsection \<open>The page\<close>

text \<open>
  The page's markup is not part of the client, so the page is modelled by the elements the
  client's selectors can reach:
  \<^item> elements found by \<open>getElementById\<close>, each with its text and the two style properties
    the client writes;
  \<^item> the container \<open>#agent-grid\<close> with the agent cards in it (elements carrying
    \<open>data-agent-id\<close>), in document order;
  \<^item> the \<open>.kanban-column\<close> elements, which are the first children of one parent, each with
    its \<open>.task-card\<close> elements (the elements carrying \<open>data-task-id\<close>);
  \<^item> the elements carrying \<open>data-stage\<close>;
  \<^item> the \<open>.status-indicator\<close> and the status text \<open>.status-item span:last-child\<close>;
  \<^item> the pending timeouts of \<open>flashElement\<close>, each holding its element.
  \<open>getElementById\<close> finds nothing for the empty id.
\<close>

record element =
  textContent :: string
  style_transition :: string
  style_color :: string

record agent_card =
  data_agent_id :: string
  agent_id_text :: string
  agent_status_text :: string
  agent_health_class :: string
  agent_tcr :: "string option"

record grid =
  grid_el :: element
  cards :: "agent_card list"

record task_card =
  card_className :: string
  data_task_id :: string
  task_id_text :: string
  task_title :: string
  task_tag_agent :: string
  task_tag_duration :: "string option"

record stage_el =
  data_stage :: string
  stage_className :: string
  stage_icon :: "string option"

record indicator_el =
  ind_active :: bool
  ind_background :: string

record page =
  elems :: "string \<rightharpoonup> element"
  agent_grid :: "grid option"
  kanban :: "task_card list list"
  pipeline :: "stage_el list"
  status_indicator :: "indicator_el option"
  status_text :: "string option"
  flash_timers :: "string list"

definition getElementById :: "page \<Rightarrow> string \<Rightarrow> element option" where
  "getElementById d i =
     (if i = [] then None
      else if i = ''agent-grid'' then map_option grid_el (agent_grid d)
      else elems d i)"

definition update_element :: "string \<Rightarrow> (element \<Rightarrow> element) \<Rightarrow> page \<Rightarrow> page" where
  "update_element i f d =
     (if i = ''agent-grid''
      then d\<lparr>agent_grid := map_option (\<lambda>g. g\<lparr>grid_el := f (grid_el g)\<rparr>) (agent_grid d)\<rparr>
      else d\<lparr>elems := (\<lambda>j. if j = i then map_option f (elems d i) else elems d j)\<rparr>)"

text \<open>Writing \<open>textContent\<close> replaces the element's children by one text.\<close>

definition set_textContent :: "string \<Rightarrow> string \<Rightarrow> page \<Rightarrow> page" where
  "set_textContent i s d =
     (if i = ''agent-grid''
      then d\<lparr>agent_grid :=
             map_option (\<lambda>g. \<lparr>grid_el = (grid_el g)\<lparr>textContent := s\<rparr>, cards = []\<rparr>) (agent_grid d)\<rparr>
      else update_element i (\<lambda>e. e\<lparr>textContent := s\<rparr>) d)"

fun upd_first :: "('a \<Rightarrow> bool) \<Rightarrow> ('a \<Rightarrow> 'a) \<Rightarrow> 'a list \<Rightarrow> 'a list" where
  "upd_first p f [] = []"
| "upd_first p f (x # xs) = (if p x then f x # xs else x # upd_first p f xs)"

fun remove_first :: "('a \<Rightarrow> bool) \<Rightarrow> 'a list \<Rightarrow> 'a list" where
  "remove_first p [] = []"
| "remove_first p (x # xs) = (if p x then xs else x # remove_first p xs)"

fun remove_first_cols :: "('a \<Rightarrow> bool) \<Rightarrow> 'a list list \<Rightarrow> 'a list list" where
  "remove_first_cols p [] = []"
| "remove_first_cols p (c # cs) =
     (if find p c \<noteq> None then remove_first p c # cs else c # remove_first_cols p cs)"

fun upd_first_cols :: "('a \<Rightarrow> bool) \<Rightarrow> ('a \<Rightarrow> 'a) \<Rightarrow> 'a list list \<Rightarrow> 'a list list" where
  "upd_first_cols p f [] = []"
| "upd_first_cols p f (c # cs) =
     (if find p c \<noteq> None then upd_first p f c # cs else c # upd_first_cols p f cs)"

definition append_to_column :: "nat \<Rightarrow> task_card \<Rightarrow> page \<Rightarrow> page" where
  "append_to_column k tc d =
     (if k < length (kanban d) then d\<lparr>kanban := (kanban d)[k := kanban d ! k @ [tc]]\<rparr> else d)"

subsection \<open>Writing to the page\<close>

definition flashElement :: "string \<Rightarrow> page \<Rightarrow> page" where
  "flashElement elementId d =
     (case getElementById d elementId of
        None \<Rightarrow> d
      | Some element \<Rightarrow>
          (update_element elementId
             (\<lambda>e. e\<lparr>style_transition := ''color 0.3s ease'', style_color := ''#3b82f6''\<rparr>) d)
          \<lparr>flash_timers := flash_timers d @ [elementId]\<rparr>)"

text \<open>The timeout armed by \<open>flashElement\<close>, 300 ms later.\<close>

definition flash_timeout :: "page \<Rightarrow> page" where
  "flash_timeout d =
     (case flash_timers d of
        [] \<Rightarrow> d
      | i # rest \<Rightarrow> (update_element i (\<lambda>e. e\<lparr>style_color := []\<rparr>) d)\<lparr>flash_timers := rest\<rparr>)"

definition updateMetricValue :: "string \<Rightarrow> string \<Rightarrow> page \<Rightarrow> page" where
  "updateMetricValue metricId v d =
     (case getElementById d metricId of
        None \<Rightarrow> d
      | Some element \<Rightarrow> flashElement metricId (set_textContent metricId v d))"

definition updateConnectionStatus :: "bool \<Rightarrow> page \<Rightarrow> page" where
  "updateConnectionStatus conn d =
     d\<lparr>status_indicator :=
          map_option (\<lambda>i. if conn then \<lparr>ind_active = True, ind_background = ''#10b981''\<rparr>
                          else \<lparr>ind_active = False, ind_background = ''#ef4444''\<rparr>)
            (status_indicator d),
       status_text :=
          map_option (\<lambda>t. if conn then ''System Online'' else ''Connecting...'') (status_text d)\<rparr>"

text \<open>\<open>element.textContent = value\<close> raises when the value cannot be converted.\<close>

definition updateSystemMetrics :: "platform \<Rightarrow> json \<Rightarrow> page \<Rightarrow> page outcome" where
  "updateSystemMetrics P metrics d =
     for_each (\<lambda>(key, v) d. case getElementById d key of
                              None \<Rightarrow> Done d
                            | Some element \<Rightarrow>
                                (case as_textContent P v of
                                   None \<Rightarrow> Thrown TypeError d
                                 | Some s \<Rightarrow> Done (flashElement key (set_textContent key s d))))
       (object_entries P metrics) d"

subsection \<open>Agent cards\<close>

text \<open>
  What \<open>document.querySelector\<close> gives for a selector with an id in it: the first element
  selected, none, the \<open>SyntaxError\<close> of a selector that is not well formed, or a result the
  model leaves open.
\<close>

datatype 'a lookup = Found 'a | Missing | BadSelector | Unread

definition querySelector_agent :: "string \<Rightarrow> page \<Rightarrow> agent_card lookup" where
  "querySelector_agent agentId d =
     (case css_string_value agentId of
        Invalid \<Rightarrow> BadSelector
      | Undetermined \<Rightarrow> Unread
      | Value v \<Rightarrow>
          (case agent_grid d of
             None \<Rightarrow> Missing
           | Some g \<Rightarrow>
               (case find (\<lambda>c. data_agent_id c = v) (cards g) of
                  None \<Rightarrow> Missing
                | Some c \<Rightarrow> Found c)))"

text \<open>
  \<open>metrics.task_completion_rate\<close> raises when \<open>metrics\<close> is \<open>null\<close>, and \<open>tcr.toFixed(1)\<close>
  raises when \<open>tcr\<close> is not a number; the card's markup is built before the card is
  appended, so nothing is appended then. The id is set as the attribute by
  \<open>setAttribute\<close>, as it is, and written into the markup.
\<close>

definition createAgentCard :: "platform \<Rightarrow> string \<Rightarrow> json \<Rightarrow> page \<Rightarrow> page outcome" where
  "createAgentCard P agentId metrics d =
     (case agent_grid d of
        None \<Rightarrow> Done d
      | Some g \<Rightarrow>
          if metrics = JNull then Thrown TypeError d
          else
            (let tcr = or_zero (get metrics ''task_completion_rate'')
             in case tcr of
                  JNum n \<Rightarrow>
                    if html_plain agentId
                    then Done (d\<lparr>agent_grid := Some (g\<lparr>cards := cards g @
                      [\<lparr>data_agent_id = agentId, agent_id_text = agentId,
                        agent_status_text = ''Active'',
                        agent_health_class = (if n \<ge> 80 then ''healthy'' else ''warning''),
                        agent_tcr = Some (toFixed1 P n @ ''%'')\<rparr>]\<rparr>)\<rparr>)
                    else Beyond d
                | _ \<Rightarrow> Thrown TypeError d))"

definition updateAgentMetric :: "platform \<Rightarrow> string \<Rightarrow> json \<Rightarrow> page \<Rightarrow> page outcome" where
  "updateAgentMetric P agentId metrics d =
     (case querySelector_agent agentId d of
        BadSelector \<Rightarrow> Thrown SyntaxError d
      | Unread \<Rightarrow> Beyond d
      | Missing \<Rightarrow> createAgentCard P agentId metrics d
      | Found agentCard \<Rightarrow>
          if metrics = JNull then Thrown TypeError d
          else
            (case get metrics ''task_completion_rate'' of
               None \<Rightarrow> Done d
             | Some rate \<Rightarrow>
                 (case agent_tcr agentCard of
                    None \<Rightarrow> Done d
                  | Some tcrElement \<Rightarrow>
                      (case rate of
                         JNum n \<Rightarrow>
                           Done (d\<lparr>agent_grid := map_option
                             (\<lambda>g. g\<lparr>cards :=
                                upd_first (\<lambda>c. css_string_value agentId = Value (data_agent_id c))
                                  (\<lambda>c. c\<lparr>agent_tcr := Some (toFixed1 P n @ ''%'')\<rparr>) (cards g)\<rparr>)
                             (agent_grid d)\<rparr>)
                       | _ \<Rightarrow> Thrown TypeError d))))"

definition updateAgentMetrics :: "platform \<Rightarrow> json \<Rightarrow> page \<Rightarrow> page outcome" where
  "updateAgentMetrics P agents d =
     for_each (\<lambda>(agentId, metrics). updateAgentMetric P agentId metrics)
       (object_entries P agents) d"

subsection \<open>Task cards\<close>

definition column_index :: "json option \<Rightarrow> nat" where
  "column_index status =
     (if status = Some (JStr ''backlog'') then 0
      else if status = Some (JStr ''in_progress'') then 1
      else if status = Some (JStr ''testing'') then 2
      else if status = Some (JStr ''done'') \<or> status = Some (JStr ''failed'') then 3
      else 0)"

text \<open>The card of a task; \<open>None\<close> when one of its texts cannot be converted to a string.\<close>

definition task_card_of :: "platform \<Rightarrow> json \<Rightarrow> task_card option" where
  "task_card_of P taskData =
     (case tmpl P (get taskData ''status'') of
        None \<Rightarrow> None
      | Some status \<Rightarrow>
     (case tmpl P (get taskData ''task_id'') of
        None \<Rightarrow> None
      | Some taskId \<Rightarrow>
     (case (if truthy (get taskData ''description'')
            then tmpl P (get taskData ''description'') else Some ''Task'') of
        None \<Rightarrow> None
      | Some title \<Rightarrow>
     (case tmpl P (get taskData ''agent'') of
        None \<Rightarrow> None
      | Some agent \<Rightarrow>
          Some \<lparr>card_className = ''task-card '' @ status,
                data_task_id = taskId,
                task_id_text = taskId,
                task_title = title,
                task_tag_agent = agent,
                task_tag_duration =
                  (case get taskData ''duration'' of
                     Some (JNum n) \<Rightarrow> if n \<noteq> 0 then Some (toFixed1 P n @ ''s'') else None
                   | _ \<Rightarrow> None)\<rparr>))))"

text \<open>
  \<open>taskData.status\<close> raises when \<open>taskData\<close> is \<open>null\<close>, a text that cannot be converted
  raises, and \<open>taskData.duration.toFixed(1)\<close> raises when the duration is truthy and not a
  number; all of this happens before the card is appended.
\<close>

definition createTaskCard :: "platform \<Rightarrow> json \<Rightarrow> page \<Rightarrow> page outcome" where
  "createTaskCard P taskData d =
     (if taskData = JNull then Thrown TypeError d
      else
        (case task_card_of P taskData of
           None \<Rightarrow> Thrown TypeError d
         | Some tc \<Rightarrow>
             if truthy (get taskData ''duration'') \<and> \<not> is_number (get taskData ''duration'')
             then Thrown TypeError d
             else if html_plain (task_id_text tc) \<and> html_plain (task_title tc)
                     \<and> html_plain (task_tag_agent tc)
             then Done (append_to_column (column_index (get taskData ''status'')) tc d)
             else Beyond d))"

definition querySelector_task :: "string \<Rightarrow> page \<Rightarrow> task_card lookup" where
  "querySelector_task taskId d =
     (case css_string_value taskId of
        Invalid \<Rightarrow> BadSelector
      | Undetermined \<Rightarrow> Unread
      | Value v \<Rightarrow>
          (case find (\<lambda>c. data_task_id c = v) (concat (kanban d)) of
             None \<Rightarrow> Missing
           | Some c \<Rightarrow> Found c))"

definition updateRecentTasks :: "platform \<Rightarrow> json \<Rightarrow> page \<Rightarrow> page outcome" where
  "updateRecentTasks P tasks d =
     (let cleared = d\<lparr>kanban := map (\<lambda>column. []) (kanban d)\<rparr>
      in case tasks of
           JArr ts \<Rightarrow> for_each (createTaskCard P) ts cleared
         | _ \<Rightarrow> Thrown TypeError cleared)"

subsection \<open>The handlers of the message types\<close>

definition when_truthy :: "json option \<Rightarrow> (json \<Rightarrow> 'a \<Rightarrow> 'a outcome) \<Rightarrow> 'a \<Rightarrow> 'a outcome" where
  "when_truthy v f s = (case v of None \<Rightarrow> Done s | Some x \<Rightarrow> if truthy (Some x) then f x s else Done s)"

definition handleInitialData :: "platform \<Rightarrow> json \<Rightarrow> page \<Rightarrow> page outcome" where
  "handleInitialData P data d =
     and_then
       (when_truthy (get data ''system_metrics'') (updateSystemMetrics P) d)
       (\<lambda>d. and_then
          (when_truthy (get data ''agents'') (updateAgentMetrics P) d)
          (when_truthy (get data ''recent_tasks'') (updateRecentTasks P)))"

text \<open>
  The class has no method \<open>updateSystemMetric\<close>, and no other script of the dashboard
  defines one: the call in the \<open>else\<close> branch raises a \<open>TypeError\<close>. In the other branch the
  id is converted to a string when it is written into the selector.
\<close>

definition handleMetricUpdate :: "platform \<Rightarrow> json \<Rightarrow> page \<Rightarrow> page outcome" where
  "handleMetricUpdate P data d =
     (case get data ''agent_id'' of
        None \<Rightarrow> Thrown TypeError d
      | Some a \<Rightarrow>
          if truthy (Some a)
          then (case js_String P a of
                  None \<Rightarrow> Thrown TypeError d
                | Some agentId \<Rightarrow> updateAgentMetric P agentId data d)
          else Thrown TypeError d)"

definition target_column :: "json option \<Rightarrow> nat option" where
  "target_column status =
     (if status = Some (JStr ''backlog'') then Some 0
      else if status = Some (JStr ''in_progress'') then Some 1
      else if status = Some (JStr ''testing'') then Some 2
      else if status = Some (JStr ''done'') \<or> status = Some (JStr ''failed'') then Some 3
      else None)"

definition handleTaskUpdate :: "platform \<Rightarrow> json \<Rightarrow> page \<Rightarrow> page outcome" where
  "handleTaskUpdate P data d =
     (let status = get data ''status''
      in case tmpl P (get data ''task_id'') of
           None \<Rightarrow> Thrown TypeError d
         | Some taskId \<Rightarrow>
             and_then
               (case querySelector_task taskId d of
                  BadSelector \<Rightarrow> Thrown SyntaxError d
                | Unread \<Rightarrow> Beyond d
                | Missing \<Rightarrow> createTaskCard P data d
                | Found taskElement \<Rightarrow>
                    (case tmpl P status of
                       None \<Rightarrow> Thrown TypeError d
                     | Some st \<Rightarrow>
                         (let hit = (\<lambda>c. css_string_value taskId = Value (data_task_id c));
                              moved = taskElement\<lparr>card_className := ''task-card '' @ st\<rparr>;
                              stay = d\<lparr>kanban := upd_first_cols hit (\<lambda>c. moved) (kanban d)\<rparr>
                          in Done (case target_column status of
                                     None \<Rightarrow> stay
                                   | Some k \<Rightarrow>
                                       if k < length (kanban d)
                                       then append_to_column k moved
                                              (d\<lparr>kanban := remove_first_cols hit (kanban d)\<rparr>)
                                       else stay))))
               (\<lambda>d. Done (flashElement (''task-'' @ taskId) d)))"

text \<open>
  \<open>data.system_tcr.toFixed(1)\<close> raises when the field is present and not a number,
  \<open>Math.round\<close> and the assignment to \<open>textContent\<close> raise on a value that cannot be
  converted, and \<open>document.getElementById('total-agents').textContent = ...\<close> raises when the
  page has no such element.
\<close>

definition handleSystemUpdate :: "platform \<Rightarrow> json \<Rightarrow> page \<Rightarrow> page outcome" where
  "handleSystemUpdate P data d =
     and_then
       (case get data ''system_tcr'' of
          None \<Rightarrow> Done d
        | Some (JNum n) \<Rightarrow> Done (updateMetricValue ''tcr'' (toFixed1 P n @ ''%'') d)
        | Some other \<Rightarrow> Thrown TypeError d)
       (\<lambda>d. and_then
          (case get data ''system_velocity'' of
             None \<Rightarrow> Done d
           | Some v \<Rightarrow>
               (case round_text P v of
                  None \<Rightarrow> Thrown TypeError d
                | Some s \<Rightarrow> Done (updateMetricValue ''velocity'' s d)))
          (\<lambda>d. case get data ''total_agents'' of
                  None \<Rightarrow> Done d
                | Some v \<Rightarrow>
                    (case getElementById d ''total-agents'' of
                       None \<Rightarrow> Thrown TypeError d
                     | Some element \<Rightarrow>
                         (case as_textContent P v of
                            None \<Rightarrow> Thrown TypeError d
                          | Some s \<Rightarrow> Done (set_textContent ''total-agents'' s d)))))"

text \<open>The four glyphs of a pipeline stage, as UTF-8: check mark, arrow, cross, circle.\<close>

definition icon_for :: "json option \<Rightarrow> string" where
  "icon_for status =
     (if status = Some (JStr ''completed'') then [CHR 0xE2, CHR 0x9C, CHR 0x93]
      else if status = Some (JStr ''running'') then [CHR 0xE2, CHR 0x9F, CHR 0xB3]
      else if status = Some (JStr ''failed'') then [CHR 0xE2, CHR 0x9C, CHR 0x97]
      else [CHR 0xE2, CHR 0x97, CHR 0x8B])"

definition handlePipelineUpdate :: "platform \<Rightarrow> json \<Rightarrow> page \<Rightarrow> page outcome" where
  "handlePipelineUpdate P data d =
     (let status = get data ''status''
      in case tmpl P (get data ''stage'') of
           None \<Rightarrow> Thrown TypeError d
         | Some stage \<Rightarrow>
             (case css_string_value stage of
                Invalid \<Rightarrow> Thrown SyntaxError d
              | Undetermined \<Rightarrow> Beyond d
              | Value v \<Rightarrow>
                  (case find (\<lambda>e. data_stage e = v) (pipeline d) of
                     None \<Rightarrow> Done d
                   | Some stageElement \<Rightarrow>
                       (case tmpl P status of
                          None \<Rightarrow> Thrown TypeError d
                        | Some st \<Rightarrow>
                            Done (d\<lparr>pipeline :=
                              upd_first (\<lambda>e. data_stage e = v)
                                (\<lambda>e. e\<lparr>stage_className := ''pipeline-stage '' @ st,
                                       stage_icon := map_option (\<lambda>icon. icon_for status)
                                                       (stage_icon e)\<rparr>)
                                (pipeline d)\<rparr>)))))"

subsection \<open>The client\<close>

datatype ready_state = CONNECTING | OPEN | CLOSING | CLOSED

datatype console_msg =
    LogConnecting
  | LogConnected
  | ErrParsing js_error
  | ErrWebSocket
  | LogClosed
  | LogReconnecting nat nat
  | ErrCreateFailed
  | LogReceived "json option"
  | LogInitialData
  | LogUnknownType "json option"
  | WarnCannotSend

text \<open>
  The fields of the class, and what it holds outside itself: the \<open>readyState\<close> of its
  socket (\<open>None\<close> while \<open>this.ws\<close> is \<open>null\<close>), the interval timer of the ping (armed with
  its period, \<open>None\<close> once cleared), the pending \<open>setTimeout\<close> calls of the reconnection
  with their delays, the frames written to the socket, the console and the page.
\<close>

record client =
  ws :: "ready_state option"
  reconnectAttempts :: nat
  isConnected :: bool
  pingInterval :: "nat option"
  reconnect_timers :: "nat list"
  sent :: "json list"
  console :: "console_msg list"
  document :: page

definition reconnectInterval :: nat where
  "reconnectInterval = 5000"

definition maxReconnectAttempts :: nat where
  "maxReconnectAttempts = 10"

definition pingPeriod :: nat where
  "pingPeriod = 30000"

definition console_write :: "console_msg \<Rightarrow> client \<Rightarrow> client" where
  "console_write m c = c\<lparr>console := console c @ [m]\<rparr>"

definition send :: "json \<Rightarrow> client \<Rightarrow> client" where
  "send data c =
     (if ws c = Some OPEN then c\<lparr>sent := sent c @ [data]\<rparr> else console_write WarnCannotSend c)"

definition msg_ping :: json where
  "msg_ping = JObj [(''type'', JStr ''ping'')]"

definition msg_get_metrics :: json where
  "msg_get_metrics = JObj [(''type'', JStr ''get_metrics'')]"

text \<open>\<open>created\<close> tells whether \<open>new WebSocket(this.wsUrl)\<close> returned a socket or raised.\<close>

definition connect :: "bool \<Rightarrow> client \<Rightarrow> client" where
  "connect created c =
     (let c1 = console_write LogConnecting c
      in if created then c1\<lparr>ws := Some CONNECTING\<rparr> else console_write ErrCreateFailed c1)"

definition constructor :: "bool \<Rightarrow> page \<Rightarrow> client" where
  "constructor created d =
     (connect created
        \<lparr>ws = None, reconnectAttempts = 0, isConnected = False, pingInterval = None,
         reconnect_timers = [], sent = [], console = [], document = d\<rparr>)
     \<lparr>pingInterval := Some pingPeriod\<rparr>"

definition onConnect :: "client \<Rightarrow> client" where
  "onConnect c = send msg_get_metrics c"

definition onopen :: "client \<Rightarrow> client" where
  "onopen c =
     (let c1 = onConnect ((console_write LogConnected c)\<lparr>isConnected := True, reconnectAttempts := 0\<rparr>)
      in c1\<lparr>document := updateConnectionStatus True (document c1)\<rparr>)"

definition onerror :: "client \<Rightarrow> client" where
  "onerror c = (console_write ErrWebSocket c)\<lparr>isConnected := False\<rparr>"

definition onclose :: "client \<Rightarrow> client" where
  "onclose c =
     (let c1 = (console_write LogClosed c)\<lparr>isConnected := False\<rparr>;
          c2 = c1\<lparr>document := updateConnectionStatus False (document c1)\<rparr>
      in if reconnectAttempts c2 < maxReconnectAttempts
         then (console_write (LogReconnecting (reconnectInterval div 1000) (reconnectAttempts c2 + 1))
                 (c2\<lparr>reconnectAttempts := reconnectAttempts c2 + 1\<rparr>))
              \<lparr>reconnect_timers := reconnect_timers c2 @ [reconnectInterval]\<rparr>
         else c2)"

definition ping_callback :: "client \<Rightarrow> client" where
  "ping_callback c = (if isConnected c then send msg_ping c else c)"

text \<open>\<open>ws.close()\<close> does nothing on a socket that is closing or closed.\<close>

fun ws_close :: "ready_state \<Rightarrow> ready_state" where
  "ws_close CONNECTING = CLOSING"
| "ws_close OPEN = CLOSING"
| "ws_close CLOSING = CLOSING"
| "ws_close CLOSED = CLOSED"

definition disconnect :: "client \<Rightarrow> client" where
  "disconnect c =
     (let c1 = (case pingInterval c of None \<Rightarrow> c | Some t \<Rightarrow> c\<lparr>pingInterval := None\<rparr>)
      in case ws c1 of None \<Rightarrow> c1 | Some s \<Rightarrow> c1\<lparr>ws := Some (ws_close s)\<rparr>)"

definition on_document :: "(page \<Rightarrow> page outcome) \<Rightarrow> client \<Rightarrow> client outcome" where
  "on_document h c =
     (case h (document c) of
        Done d \<Rightarrow> Done (c\<lparr>document := d\<rparr>)
      | Thrown e d \<Rightarrow> Thrown e (c\<lparr>document := d\<rparr>)
      | Beyond d \<Rightarrow> Beyond (c\<lparr>document := d\<rparr>))"

text \<open>\<open>data.type\<close> raises when \<open>data\<close> is \<open>null\<close>, before anything is logged.\<close>

definition handleMessage :: "platform \<Rightarrow> json \<Rightarrow> client \<Rightarrow> client outcome" where
  "handleMessage P data c =
     (if data = JNull then Thrown TypeError c
      else
        (let ty = get data ''type'';
             c1 = console_write (LogReceived ty) c
         in if ty = Some (JStr ''initial'')
            then on_document (handleInitialData P data) (console_write LogInitialData c1)
            else if ty = Some (JStr ''metric_update'')
            then on_document (handleMetricUpdate P data) c1
            else if ty = Some (JStr ''task_update'')
            then on_document (handleTaskUpdate P data) c1
            else if ty = Some (JStr ''system_update'')
            then on_document (handleSystemUpdate P data) c1
            else if ty = Some (JStr ''pipeline_update'')
            then on_document (handlePipelineUpdate P data) c1
            else if ty = Some (JStr ''pong'')
            then Done c1
            else Done (console_write (LogUnknownType ty) c1)))"

text \<open>
  \<open>ws.onmessage\<close>: the \<open>try\<close> encloses both \<open>JSON.parse\<close> and \<open>handleMessage\<close>, and the
  \<open>catch\<close> only writes to the console.
\<close>

definition onmessage :: "platform \<Rightarrow> frame \<Rightarrow> client \<Rightarrow> client outcome" where
  "onmessage P f c =
     (case f of
        Unparseable \<Rightarrow> Done (console_write (ErrParsing SyntaxError) c)
      | Parsed data \<Rightarrow>
          (case handleMessage P data c of
             Done c' \<Rightarrow> Done c'
           | Thrown e c' \<Rightarrow> Done (console_write (ErrParsing e) c')
           | Beyond c' \<Rightarrow> Beyond c'))"

subsection \<open>The events the client answers\<close>

text \<open>
  The browser sets \<open>readyState\<close> before it calls \<open>onopen\<close> or \<open>onclose\<close>. An event can occur
  only in the states \<open>enabled\<close> names, and the model settles it unless it is a message whose
  handling ends \<open>Beyond\<close>. \<open>run\<close> is \<open>None\<close> for a sequence that cannot occur or that the
  model does not settle.
\<close>

datatype event =
    TransportOpen
  | TransportMessage frame
  | TransportError
  | TransportClose
  | PingTick
  | ReconnectTimeout bool
  | FlashTimeout
  | CallDisconnect

fun enabled :: "client \<Rightarrow> event \<Rightarrow> bool" where
  "enabled c TransportOpen = (ws c = Some CONNECTING)"
| "enabled c (TransportMessage f) = (ws c = Some OPEN \<or> ws c = Some CLOSING)"
| "enabled c TransportError = (ws c \<noteq> None \<and> ws c \<noteq> Some CLOSED)"
| "enabled c TransportClose = (ws c \<noteq> None \<and> ws c \<noteq> Some CLOSED)"
| "enabled c PingTick = (pingInterval c \<noteq> None)"
| "enabled c (ReconnectTimeout created) = (reconnect_timers c \<noteq> [])"
| "enabled c FlashTimeout = (flash_timers (document c) \<noteq> [])"
| "enabled c CallDisconnect = True"

fun step :: "platform \<Rightarrow> client \<Rightarrow> event \<Rightarrow> client" where
  "step P c TransportOpen = onopen (c\<lparr>ws := Some OPEN\<rparr>)"
| "step P c (TransportMessage f) = state_of (onmessage P f c)"
| "step P c TransportError = onerror c"
| "step P c TransportClose = onclose (c\<lparr>ws := Some CLOSED\<rparr>)"
| "step P c PingTick = ping_callback c"
| "step P c (ReconnectTimeout created) =
     connect created (c\<lparr>reconnect_timers := tl (reconnect_timers c)\<rparr>)"
| "step P c FlashTimeout = c\<lparr>document := flash_timeout (document c)\<rparr>"
| "step P c CallDisconnect = disconnect c"

fun settled :: "platform \<Rightarrow> client \<Rightarrow> event \<Rightarrow> bool" where
  "settled P c (TransportMessage f) = (\<not> is_beyond (onmessage P f c))"
| "settled P c e = True"

fun run :: "platform \<Rightarrow> client \<Rightarrow> event list \<Rightarrow> client option" where
  "run P c [] = Some c"
| "run P c (e # es) = (if enabled c e \<and> settled P c e then run P (step P c e) es else None)"

subsection \<open>Runs of failures, and a page and a platform for the examples\<close>

text \<open>
  One transport failure is the close of the socket followed by the reconnect timeout that
  the close armed. A client is \<open>awaiting\<close> when its socket is connecting and no reconnect
  timeout is pending, as it is after the constructor.
\<close>

definition failures :: "nat \<Rightarrow> event list" where
  "failures n = concat (replicate n [TransportClose, ReconnectTimeout True])"

definition awaiting :: "client \<Rightarrow> bool" where
  "awaiting c = (ws c = Some CONNECTING \<and> reconnect_timers c = [])"

text \<open>
  The example platform prints whole numbers, knows no numeric strings and takes every byte
  for a code unit; the examples use it on whole numbers and ASCII strings only.
\<close>

definition P0 :: platform where
  "P0 = \<lparr>numToString = (\<lambda>r. string_of_int \<lfloor>r\<rfloor>), parseNumber = (\<lambda>s. None),
          codeUnits = map (\<lambda>c. [c])\<rparr>"

definition page0 :: page where
  "page0 =
     \<lparr>elems = Map.empty, agent_grid = None, kanban = [[], [], [], []], pipeline = [],
      status_indicator = Some \<lparr>ind_active = False, ind_background = []\<rparr>,
      status_text = Some ''Connecting...'', flash_timers = []\<rparr>"

definition el :: "string \<Rightarrow> element" where
  "el t = \<lparr>textContent = t, style_transition = [], style_color = []\<rparr>"

definition page1 :: page where
  "page1 =
     \<lparr>elems = map_of [(''tcr'', el ''0.0%''), (''velocity'', el ''0''), (''total-agents'', el ''0'')],
      agent_grid = Some \<lparr>grid_el = el [], cards =
        [\<lparr>data_agent_id = ''AGT-2'', agent_id_text = ''AGT-2'', agent_status_text = ''Active'',
          agent_health_class = ''warning'', agent_tcr = Some ''75.0%''\<rparr>]\<rparr>,
      kanban = [[], [], [], []], pipeline = [],
      status_indicator = Some \<lparr>ind_active = False, ind_background = []\<rparr>,
      status_text = Some ''Connecting...'', flash_timers = []\<rparr>"

definition client_open :: client where
  "client_open = step P0 (constructor True page1) TransportOpen"

subsection \<open>Malformed frames and the record of a drop\<close>

text \<open>
  The six message types \<open>handleMessage\<close> has a case for. A frame is malformed when
  \<open>JSON.parse\<close> rejects it or when its \<open>type\<close> is none of the six (which includes a frame
  that is not an object). What records a dropped frame is a line of the console:
  \<open>console.error\<close> in the \<open>catch\<close> of \<open>onmessage\<close>, or the line \<open>Unknown message type\<close> of
  the \<open>default\<close> case. \<open>drop_records\<close> is the number of these lines.
\<close>

definition recognized :: "json option \<Rightarrow> bool" where
  "recognized ty =
     (ty = Some (JStr ''initial'') \<or> ty = Some (JStr ''metric_update'')
      \<or> ty = Some (JStr ''task_update'') \<or> ty = Some (JStr ''system_update'')
      \<or> ty = Some (JStr ''pipeline_update'') \<or> ty = Some (JStr ''pong''))"

definition malformed :: "frame \<Rightarrow> bool" where
  "malformed f =
     (case f of Unparseable \<Rightarrow> True | Parsed data \<Rightarrow> \<not> recognized (get data ''type''))"

fun is_drop :: "console_msg \<Rightarrow> bool" where
  "is_drop (ErrParsing e) = True"
| "is_drop (LogUnknownType ty) = True"
| "is_drop m = False"

definition drop_records :: "client \<Rightarrow> nat" where
  "drop_records c = length (filter is_drop (console c))"

subsection \<open>Frames for the examples\<close>

definition frame_velocity :: json where
  "frame_velocity = JObj [(''type'', JStr ''system_update''), (''system_velocity'', JNum 12)]"





subsection \<open>Runs: what the statements speak of\<close>

text \<open>
  The transport failures in a row at the end of a run: the closes since the last open
  (\<open>count_failures\<close> carries the count so far). Whether the session is open at the end of a
  run: the last event that concerns the socket is its opening. And the states in which at
  most one thing is under way: a socket that is not closed, or one pending reconnect
  timeout.
\<close>

fun count_failures :: "nat \<Rightarrow> event list \<Rightarrow> nat" where
  "count_failures n [] = n"
| "count_failures n (TransportOpen # es) = count_failures 0 es"
| "count_failures n (TransportClose # es) = count_failures (Suc n) es"
| "count_failures n (e # es) = count_failures n es"

definition consecutive_failures :: "event list \<Rightarrow> nat" where
  "consecutive_failures es = count_failures 0 es"

fun open_after :: "bool \<Rightarrow> event list \<Rightarrow> bool" where
  "open_after b [] = b"
| "open_after b (TransportOpen # es) = open_after True es"
| "open_after b (TransportError # es) = open_after False es"
| "open_after b (TransportClose # es) = open_after False es"
| "open_after b (CallDisconnect # es) = open_after False es"
| "open_after b (ReconnectTimeout created # es) = open_after False es"
| "open_after b (e # es) = open_after b es"

definition session_open :: "event list \<Rightarrow> bool" where
  "session_open es = open_after False es"

definition one_at_a_time :: "client \<Rightarrow> bool" where
  "one_at_a_time c =
     ((ws c = None \<or> ws c = Some CLOSED \<or> reconnect_timers c = [])
      \<and> (reconnect_timers c = [] \<or> reconnect_timers c = [reconnectInterval]))"

text \<open>A failure as the browser reports it: the error event, the close, the timeout.\<close>

definition reported_failures :: "nat \<Rightarrow> event list" where
  "reported_failures n =
     concat (replicate n [TransportError, TransportClose, ReconnectTimeout True])"

subsection \<open>Messages: what the statements speak of\<close>








section \<open>Properties\<close>

subsection \<open>Basic facts\<close>

lemmas conn_defs = onopen_def onConnect_def send_def console_write_def onclose_def onerror_def
  connect_def disconnect_def ping_callback_def constructor_def reconnectInterval_def
  maxReconnectAttempts_def pingPeriod_def

lemma get_JNull [simp]: "get JNull k = None"
  by (simp add: get_def)



lemma awaiting_constructor:
  "awaiting (constructor True d) \<and> reconnectAttempts (constructor True d) = 0"
  by (simp add: awaiting_def conn_defs)

lemma updateConnectionStatus_twice:
  "updateConnectionStatus b (updateConnectionStatus b d) = updateConnectionStatus b d"
  by (simp add: updateConnectionStatus_def option.map_comp comp_def)

text \<open>A message changes the console and the page and nothing else.\<close>

lemma state_of_on_document:
  "state_of (on_document h c) = c\<lparr>document := state_of (h (document c))\<rparr>"
  by (simp add: on_document_def split: outcome.splits)

lemma handleMessage_fields:
  "ws (state_of (handleMessage P data c)) = ws c
   \<and> reconnectAttempts (state_of (handleMessage P data c)) = reconnectAttempts c
   \<and> isConnected (state_of (handleMessage P data c)) = isConnected c
   \<and> pingInterval (state_of (handleMessage P data c)) = pingInterval c
   \<and> reconnect_timers (state_of (handleMessage P data c)) = reconnect_timers c
   \<and> sent (state_of (handleMessage P data c)) = sent c"
  by (simp add: handleMessage_def state_of_on_document console_write_def Let_def)

lemma onmessage_fields:
  "ws (state_of (onmessage P f c)) = ws c
   \<and> reconnectAttempts (state_of (onmessage P f c)) = reconnectAttempts c
   \<and> isConnected (state_of (onmessage P f c)) = isConnected c
   \<and> pingInterval (state_of (onmessage P f c)) = pingInterval c
   \<and> reconnect_timers (state_of (onmessage P f c)) = reconnect_timers c
   \<and> sent (state_of (onmessage P f c)) = sent c"
proof (cases f)
  case Unparseable
  then show ?thesis
    by (simp add: onmessage_def console_write_def)
next
  case (Parsed data)
  show ?thesis
    using handleMessage_fields [of P data c] Parsed
    by (cases "handleMessage P data c") (simp_all add: onmessage_def console_write_def)
qed





subsection \<open>The connection\<close>

text \<open>
  C9. On every transport-open event the socket is open, the client is connected, the retry
  count is zero, the request \<open>get_metrics\<close> has been written to the socket, and the page
  shows the connected status.
\<close>

theorem transport_open_resets_and_requests:
  assumes "enabled c TransportOpen"
  shows "ws (step P c TransportOpen) = Some OPEN
       \<and> isConnected (step P c TransportOpen)
       \<and> reconnectAttempts (step P c TransportOpen) = 0
       \<and> sent (step P c TransportOpen) = sent c @ [msg_get_metrics]
       \<and> document (step P c TransportOpen) = updateConnectionStatus True (document c)"
  by (simp add: conn_defs)

theorem transport_open_witness:
  "enabled (constructor True page0) TransportOpen
   \<and> ws (step P0 (constructor True page0) TransportOpen) = Some OPEN
   \<and> sent (step P0 (constructor True page0) TransportOpen) = [msg_get_metrics]"
  using transport_open_resets_and_requests [of "constructor True page0" P0]
  by (simp add: conn_defs)

text \<open>
  C1, as the code has it. \<open>disconnect()\<close> can be called in every state and a second call
  changes nothing: it clears the ping interval and, when there is a socket, closes it, and
  it touches nothing else. It does not cancel a pending reconnect timeout, and the close
  event of the socket it closed arms a new one as long as fewer than ten attempts are
  counted: a client that is told to disconnect while it is connecting is disconnected after
  the close event and connecting again after the reconnect timeout.
\<close>

theorem disconnect_clears_ping_and_closes_socket:
  "pingInterval (disconnect c) = None
   \<and> ws (disconnect c) = map_option ws_close (ws c)
   \<and> ws (disconnect c) \<noteq> Some CONNECTING \<and> ws (disconnect c) \<noteq> Some OPEN
   \<and> disconnect (disconnect c) = disconnect c
   \<and> (disconnect c)\<lparr>pingInterval := pingInterval c, ws := ws c\<rparr> = c
   \<and> reconnect_timers (disconnect c) = reconnect_timers c
   \<and> (enabled (disconnect c) TransportClose \<and> reconnectAttempts c < maxReconnectAttempts \<longrightarrow>
        reconnect_timers (step P (disconnect c) TransportClose)
          = reconnect_timers c @ [reconnectInterval])
   \<and> (awaiting c \<and> reconnectAttempts c < maxReconnectAttempts \<longrightarrow>
        map_option ws (run P c [CallDisconnect, TransportClose]) = Some (Some CLOSED)
        \<and> map_option ws (run P c [CallDisconnect, TransportClose, ReconnectTimeout True])
            = Some (Some CONNECTING))"
  by (cases "ws c"; cases "pingInterval c"; cases "the (ws c)")
     (auto simp: conn_defs awaiting_def Let_def)

theorem disconnect_witness:
  "enabled (disconnect (constructor True page0)) TransportClose
   \<and> reconnectAttempts (constructor True page0) < maxReconnectAttempts
   \<and> reconnect_timers (step P0 (disconnect (constructor True page0)) TransportClose) = [5000]
   \<and> awaiting (constructor True page0)
   \<and> map_option ws (run P0 (constructor True page0)
          [CallDisconnect, TransportClose, ReconnectTimeout True]) = Some (Some CONNECTING)"
  using disconnect_clears_ping_and_closes_socket [of "constructor True page0" P0]
  by (simp add: conn_defs awaiting_def)

text \<open>
  Against C1 as stated: \<open>disconnect()\<close> while connecting, then the close event of the socket,
  leaves the client disconnected with one attempt counted and a reconnect timeout pending;
  when that timeout fires the client is connecting again.
\<close>

theorem disconnect_while_connecting_reconnects:
  "map_option ws (run P0 (constructor True page0) [CallDisconnect, TransportClose])
     = Some (Some CLOSED)
   \<and> map_option reconnectAttempts (run P0 (constructor True page0) [CallDisconnect, TransportClose])
     = Some 1
   \<and> map_option reconnect_timers (run P0 (constructor True page0) [CallDisconnect, TransportClose])
     = Some [5000]
   \<and> map_option pingInterval (run P0 (constructor True page0) [CallDisconnect, TransportClose])
     = Some None
   \<and> map_option ws
        (run P0 (constructor True page0) [CallDisconnect, TransportClose, ReconnectTimeout True])
     = Some (Some CONNECTING)
   \<and> map_option reconnectAttempts
        (run P0 (constructor True page0) [CallDisconnect, TransportClose, ReconnectTimeout True])
     = Some 1"
  by (simp add: conn_defs Let_def)

subsection \<open>Reconnection\<close>

lemma step_attempts:
  "reconnectAttempts (step P c e) =
     (if e = TransportOpen then 0
      else if e = TransportClose \<and> reconnectAttempts c < maxReconnectAttempts
      then Suc (reconnectAttempts c)
      else reconnectAttempts c)"
  by (cases e) (simp_all add: conn_defs onmessage_fields Let_def split: option.splits)

lemma step_one_at_a_time:
  "one_at_a_time c \<Longrightarrow> enabled c e \<Longrightarrow> one_at_a_time (step P c e)"
  by (cases e)
     (auto simp: one_at_a_time_def conn_defs onmessage_fields Let_def split: option.splits)

lemma one_at_a_time_constructor: "one_at_a_time (constructor created d)"
  by (simp add: one_at_a_time_def conn_defs Let_def)

lemma run_one_at_a_time:
  "run P c es = Some c' \<Longrightarrow> one_at_a_time c \<Longrightarrow> one_at_a_time c'"
proof (induction es arbitrary: c)
  case Nil
  then show ?case by simp
next
  case (Cons e es)
  then show ?case
    using step_one_at_a_time [of c e P] by (auto split: if_splits)
qed

lemma count_failures_step:
  "count_failures n (e # es) =
     count_failures (if e = TransportOpen then 0 else if e = TransportClose then Suc n else n) es"
  by (cases e) simp_all

lemma run_attempts:
  "run P c es = Some c' \<Longrightarrow> reconnectAttempts c = min maxReconnectAttempts n \<Longrightarrow>
   reconnectAttempts c' = min maxReconnectAttempts (count_failures n es)"
proof (induction es arbitrary: c n)
  case Nil
  then show ?case by simp
next
  case (Cons e es)
  from Cons.prems(1) have r: "run P (step P c e) es = Some c'"
    by (auto split: if_splits)
  have a: "reconnectAttempts (step P c e)
         = min maxReconnectAttempts
             (if e = TransportOpen then 0 else if e = TransportClose then Suc n else n)"
    using Cons.prems(2) by (auto simp: step_attempts min_def)
  from Cons.IH [OF r a] show ?case
    by (simp only: count_failures_step)
qed

lemma close_below_cap:
  assumes "one_at_a_time c" and "enabled c TransportClose"
    and "reconnectAttempts c < maxReconnectAttempts"
  shows "reconnect_timers (step P c TransportClose) = [reconnectInterval]
       \<and> reconnectAttempts (step P c TransportClose) = Suc (reconnectAttempts c)
       \<and> map_option ws (run P (step P c TransportClose) [ReconnectTimeout True])
           = Some (Some CONNECTING)"
  using assms by (auto simp: one_at_a_time_def conn_defs Let_def)

lemma close_at_cap:
  assumes "one_at_a_time c" and "enabled c TransportClose"
    and "reconnectAttempts c = maxReconnectAttempts"
  shows "ws (step P c TransportClose) = Some CLOSED
       \<and> reconnect_timers (step P c TransportClose) = []"
  using assms by (auto simp: one_at_a_time_def conn_defs Let_def)

lemma close_status:
  "document (step P c TransportClose) = updateConnectionStatus False (document c)"
  by (simp add: conn_defs Let_def)

lemma quiet_stays:
  "ws c = Some CLOSED \<Longrightarrow> reconnect_timers c = [] \<Longrightarrow> enabled c e \<Longrightarrow>
   ws (step P c e) = Some CLOSED \<and> reconnect_timers (step P c e) = []"
  by (cases e) (auto simp: conn_defs Let_def split: option.splits)

lemma quiet_run:
  "ws c = Some CLOSED \<Longrightarrow> reconnect_timers c = [] \<Longrightarrow> run P c es = Some c' \<Longrightarrow>
   ws c' = Some CLOSED \<and> reconnect_timers c' = []"
proof (induction es arbitrary: c)
  case Nil
  then show ?case by simp
next
  case (Cons e es)
  then show ?case using quiet_stays [of c e P] by (auto split: if_splits)
qed

text \<open>
  C2, as the code has it. Take any run of a constructed client, whatever events it is made
  of, as long as each occurs in a state in which it can occur and no message in it is one
  the model leaves open. The retry count is the number of transport failures in a row
  since the last opening, capped at ten, whether or not error events came with them. When
  the socket then closes, the page shows the status text \<open>Connecting...\<close> and the red
  indicator, whatever the count. If fewer than ten failures went before, so for every
  failure up to the tenth in a row, the close arms exactly one reconnect timeout, and when
  it fires the client is connecting again. If ten failures went before, which makes this
  close the failure of the tenth reconnection attempt, it arms no timeout, and in every
  continuation the socket stays closed and no timeout is armed.
\<close>

theorem reconnect_stops_at_cap:
  assumes "run P (constructor created d) es = Some c" and "enabled c TransportClose"
  shows "reconnectAttempts c = min maxReconnectAttempts (consecutive_failures es)
       \<and> status_text (document (step P c TransportClose))
           = map_option (\<lambda>t. ''Connecting...'') (status_text (document c))
       \<and> status_indicator (document (step P c TransportClose))
           = map_option (\<lambda>i. \<lparr>ind_active = False, ind_background = ''#ef4444''\<rparr>)
               (status_indicator (document c))
       \<and> (consecutive_failures es < maxReconnectAttempts \<longrightarrow>
            reconnect_timers (step P c TransportClose) = [reconnectInterval]
            \<and> reconnectAttempts (step P c TransportClose) = Suc (consecutive_failures es)
            \<and> map_option ws (run P (step P c TransportClose) [ReconnectTimeout True])
                = Some (Some CONNECTING))
       \<and> (maxReconnectAttempts \<le> consecutive_failures es \<longrightarrow>
            ws (step P c TransportClose) = Some CLOSED
            \<and> reconnect_timers (step P c TransportClose) = []
            \<and> (\<forall>es' c'. run P (step P c TransportClose) es' = Some c' \<longrightarrow>
                  ws c' = Some CLOSED \<and> reconnect_timers c' = []))"
proof -
  have i: "one_at_a_time c"
    using run_one_at_a_time [OF assms(1) one_at_a_time_constructor] .
  have "reconnectAttempts (constructor created d) = min maxReconnectAttempts 0"
    by (simp add: conn_defs Let_def)
  from run_attempts [OF assms(1) this]
  have a: "reconnectAttempts c = min maxReconnectAttempts (consecutive_failures es)"
    by (simp add: consecutive_failures_def)
  have s: "status_text (document (step P c TransportClose))
           = map_option (\<lambda>t. ''Connecting...'') (status_text (document c))
       \<and> status_indicator (document (step P c TransportClose))
           = map_option (\<lambda>i. \<lparr>ind_active = False, ind_background = ''#ef4444''\<rparr>)
               (status_indicator (document c))"
    by (simp only: close_status) (simp add: updateConnectionStatus_def)
  have b: "consecutive_failures es < maxReconnectAttempts \<longrightarrow>
            reconnect_timers (step P c TransportClose) = [reconnectInterval]
            \<and> reconnectAttempts (step P c TransportClose) = Suc (consecutive_failures es)
            \<and> map_option ws (run P (step P c TransportClose) [ReconnectTimeout True])
                = Some (Some CONNECTING)"
  proof
    assume l: "consecutive_failures es < maxReconnectAttempts"
    with a have e: "reconnectAttempts c = consecutive_failures es"
      by simp
    with l have "reconnectAttempts c < maxReconnectAttempts"
      by simp
    from close_below_cap [OF i assms(2) this, of P] e
    show "reconnect_timers (step P c TransportClose) = [reconnectInterval]
            \<and> reconnectAttempts (step P c TransportClose) = Suc (consecutive_failures es)
            \<and> map_option ws (run P (step P c TransportClose) [ReconnectTimeout True])
                = Some (Some CONNECTING)"
      by (simp only:)
  qed
  have t: "maxReconnectAttempts \<le> consecutive_failures es \<longrightarrow>
            ws (step P c TransportClose) = Some CLOSED
            \<and> reconnect_timers (step P c TransportClose) = []
            \<and> (\<forall>es' c'. run P (step P c TransportClose) es' = Some c' \<longrightarrow>
                  ws c' = Some CLOSED \<and> reconnect_timers c' = [])"
  proof
    assume "maxReconnectAttempts \<le> consecutive_failures es"
    with a have "reconnectAttempts c = maxReconnectAttempts"
      by simp
    from close_at_cap [OF i assms(2) this, of P]
    have q: "ws (step P c TransportClose) = Some CLOSED"
      "reconnect_timers (step P c TransportClose) = []"
      by simp_all
    with quiet_run [OF q, of P]
    show "ws (step P c TransportClose) = Some CLOSED
            \<and> reconnect_timers (step P c TransportClose) = []
            \<and> (\<forall>es' c'. run P (step P c TransportClose) es' = Some c' \<longrightarrow>
                  ws c' = Some CLOSED \<and> reconnect_timers c' = [])"
      by blast
  qed
  from a s b t show ?thesis
    by blast
qed

lemma one_failure:
  assumes "awaiting c" and "reconnectAttempts c < maxReconnectAttempts"
  shows "\<exists>c'. run P c ([TransportClose, ReconnectTimeout True] @ es) = run P c' es
            \<and> awaiting c' \<and> reconnectAttempts c' = Suc (reconnectAttempts c)
            \<and> document c' = updateConnectionStatus False (document c)"
  using assms
  by (intro exI [of _ "step P (step P c TransportClose) (ReconnectTimeout True)"])
     (simp add: awaiting_def conn_defs Let_def)

lemma failures_Suc: "failures (Suc n) = [TransportClose, ReconnectTimeout True] @ failures n"
  by (simp add: failures_def)

lemma run_failures:
  "awaiting c \<Longrightarrow> reconnectAttempts c + n \<le> maxReconnectAttempts \<Longrightarrow>
   \<exists>c'. run P c (failures n @ es) = run P c' es \<and> awaiting c'
        \<and> reconnectAttempts c' = reconnectAttempts c + n
        \<and> document c' = (if n = 0 then document c else updateConnectionStatus False (document c))"
proof (induction n arbitrary: c)
  case 0
  then show ?case by (auto simp: failures_def)
next
  case (Suc n)
  from Suc.prems obtain c1 where c1:
    "run P c ([TransportClose, ReconnectTimeout True] @ (failures n @ es)) = run P c1 (failures n @ es)"
    "awaiting c1" "reconnectAttempts c1 = Suc (reconnectAttempts c)"
    "document c1 = updateConnectionStatus False (document c)"
    using one_failure [of c P "failures n @ es"] by auto
  from Suc.IH [of c1] c1 Suc.prems obtain c' where c':
    "run P c1 (failures n @ es) = run P c' es" "awaiting c'"
    "reconnectAttempts c' = reconnectAttempts c1 + n"
    "document c' = (if n = 0 then document c1 else updateConnectionStatus False (document c1))"
    by auto
  show ?case
    apply (rule exI [of _ c'])
    using c1 c' by (auto simp: failures_Suc updateConnectionStatus_twice)
qed

lemma run_to_cap:
  assumes "awaiting c" and "reconnectAttempts c = 0"
  shows "\<exists>c'. run P c (failures maxReconnectAttempts @ [TransportClose]) = Some c'
            \<and> ws c' = Some CLOSED \<and> reconnect_timers c' = []
            \<and> document c' = updateConnectionStatus False (document c)"
proof -
  from run_failures [of c maxReconnectAttempts P "[TransportClose]"] assms
  obtain c1 where c1:
    "run P c (failures maxReconnectAttempts @ [TransportClose]) = run P c1 [TransportClose]"
    "awaiting c1" "reconnectAttempts c1 = maxReconnectAttempts"
    "document c1 = updateConnectionStatus False (document c)"
    by (auto simp: maxReconnectAttempts_def)
  show ?thesis
    apply (rule exI [of _ "step P c1 TransportClose"])
    using c1 by (simp add: awaiting_def conn_defs Let_def updateConnectionStatus_twice)
qed

lemma one_reported_failure:
  assumes "awaiting c" and "reconnectAttempts c < maxReconnectAttempts"
  shows "\<exists>c'. run P c ([TransportError, TransportClose, ReconnectTimeout True] @ es) = run P c' es
            \<and> awaiting c' \<and> reconnectAttempts c' = Suc (reconnectAttempts c)"
  using assms
  by (intro exI [of _ "step P (step P (step P c TransportError) TransportClose)
                         (ReconnectTimeout True)"])
     (simp add: awaiting_def conn_defs Let_def)

lemma reported_failures_Suc:
  "reported_failures (Suc n)
     = [TransportError, TransportClose, ReconnectTimeout True] @ reported_failures n"
  by (simp add: reported_failures_def)

lemma run_reported_failures:
  "awaiting c \<Longrightarrow> reconnectAttempts c + n \<le> maxReconnectAttempts \<Longrightarrow>
   \<exists>c'. run P c (reported_failures n) = Some c' \<and> awaiting c'
        \<and> reconnectAttempts c' = reconnectAttempts c + n"
proof (induction n arbitrary: c)
  case 0
  then show ?case by (simp add: reported_failures_def)
next
  case (Suc n)
  from Suc.prems obtain c1 where c1:
    "run P c ([TransportError, TransportClose, ReconnectTimeout True] @ reported_failures n)
       = run P c1 (reported_failures n)"
    "awaiting c1" "reconnectAttempts c1 = Suc (reconnectAttempts c)"
    using one_reported_failure [of c P "reported_failures n"] by auto
  from Suc.IH [of c1] c1 Suc.prems obtain c' where c':
    "run P c1 (reported_failures n) = Some c'" "awaiting c'"
    "reconnectAttempts c' = reconnectAttempts c1 + n"
    by auto
  show ?case
    apply (rule exI [of _ c'])
    using c1 c' by (simp add: reported_failures_Suc)
qed

lemma count_failures_reported:
  "count_failures k (reported_failures n) = k + n"
  by (induction n arbitrary: k) (simp_all add: reported_failures_def)

theorem reconnect_stops_at_cap_witness:
  "enabled (constructor True page0) TransportClose
   \<and> consecutive_failures [] < maxReconnectAttempts
   \<and> reconnect_timers (step P0 (constructor True page0) TransportClose) = [5000]
   \<and> maxReconnectAttempts \<le> consecutive_failures (reported_failures 10)
   \<and> (\<exists>c. run P0 (constructor True page0) (reported_failures 10) = Some c
          \<and> enabled c TransportClose
          \<and> ws (step P0 c TransportClose) = Some CLOSED
          \<and> reconnect_timers (step P0 c TransportClose) = [])"
proof -
  have r0: "run P0 (constructor True page0) [] = Some (constructor True page0)"
    by simp
  have e0: "enabled (constructor True page0) TransportClose"
    by (simp add: conn_defs)
  have f0: "consecutive_failures [] < maxReconnectAttempts"
    by (simp add: consecutive_failures_def maxReconnectAttempts_def)
  from reconnect_stops_at_cap [OF r0 e0] f0
  have a: "reconnect_timers (step P0 (constructor True page0) TransportClose) = [5000]"
    by (simp add: reconnectInterval_def)
  have f: "maxReconnectAttempts \<le> consecutive_failures (reported_failures 10)"
    by (simp add: consecutive_failures_def count_failures_reported maxReconnectAttempts_def)
  from run_reported_failures [of "constructor True page0" 10 P0] awaiting_constructor [of page0]
  obtain c where c:
    "run P0 (constructor True page0) (reported_failures 10) = Some c" "awaiting c"
    by (auto simp: maxReconnectAttempts_def)
  then have e: "enabled c TransportClose"
    by (simp add: awaiting_def)
  from reconnect_stops_at_cap [OF c(1) e] f
  have "ws (step P0 c TransportClose) = Some CLOSED
      \<and> reconnect_timers (step P0 c TransportClose) = []"
    by blast
  with c(1) e have "\<exists>c. run P0 (constructor True page0) (reported_failures 10) = Some c
          \<and> enabled c TransportClose
          \<and> ws (step P0 c TransportClose) = Some CLOSED
          \<and> reconnect_timers (step P0 c TransportClose) = []"
    by blast
  with e0 f0 a f show ?thesis
    by blast
qed

text \<open>
  Against C2 as stated: after the failure of the tenth reconnection attempt the page shows
  the status text \<open>Connecting...\<close> and the red indicator, and the whole page is the one
  shown after the very first failure: nothing marks the state as terminal.
\<close>

theorem no_terminal_status_shown:
  "map_option ws (run P0 (constructor True page0) (failures 10 @ [TransportClose]))
     = Some (Some CLOSED)
   \<and> map_option reconnect_timers (run P0 (constructor True page0) (failures 10 @ [TransportClose]))
     = Some []
   \<and> map_option (status_text \<circ> document)
        (run P0 (constructor True page0) (failures 10 @ [TransportClose]))
     = Some (Some ''Connecting...'')
   \<and> map_option (status_indicator \<circ> document)
        (run P0 (constructor True page0) (failures 10 @ [TransportClose]))
     = Some (Some \<lparr>ind_active = False, ind_background = ''#ef4444''\<rparr>)
   \<and> map_option document (run P0 (constructor True page0) (failures 10 @ [TransportClose]))
     = map_option document (run P0 (constructor True page0) [TransportClose])"
proof -
  from run_to_cap [of "constructor True page0" P0] awaiting_constructor [of page0]
  obtain c' where c':
    "run P0 (constructor True page0) (failures 10 @ [TransportClose]) = Some c'"
    "ws c' = Some CLOSED" "reconnect_timers c' = []"
    "document c' = updateConnectionStatus False (document (constructor True page0))"
    by (auto simp: maxReconnectAttempts_def)
  have "document (constructor True page0) = page0"
    by (simp add: conn_defs)
  with c' show ?thesis
    by (simp add: updateConnectionStatus_def page0_def conn_defs Let_def)
qed

subsection \<open>Liveness\<close>

lemma step_pingInterval:
  "pingInterval (step P c e) = (if e = CallDisconnect then None else pingInterval c)"
  by (cases e) (simp_all add: conn_defs onmessage_fields Let_def split: option.splits)

lemma run_pingInterval:
  "run P c es = Some c' \<Longrightarrow>
   pingInterval c' = (if CallDisconnect \<in> set es then None else pingInterval c)"
proof (induction es arbitrary: c)
  case Nil
  then show ?case by simp
next
  case (Cons e es)
  from Cons.prems have r: "run P (step P c e) es = Some c'"
    by (auto split: if_splits)
  from Cons.IH [OF r] show ?case
    by (auto simp: step_pingInterval simp del: step.simps)
qed

lemma open_after_step:
  "open_after b (e # es) =
     open_after (if e = TransportOpen then True
                 else if e = TransportError \<or> e = TransportClose \<or> e = CallDisconnect
                         \<or> (\<exists>created. e = ReconnectTimeout created) then False
                 else b) es"
  by (cases e) simp_all

lemma run_open:
  "run P c es = Some c' \<Longrightarrow> (b \<longrightarrow> ws c = Some OPEN \<and> isConnected c) \<Longrightarrow>
   open_after b es \<Longrightarrow> ws c' = Some OPEN \<and> isConnected c'"
proof (induction es arbitrary: c b)
  case Nil
  then show ?case by simp
next
  case (Cons e es)
  let ?b = "if e = TransportOpen then True
            else if e = TransportError \<or> e = TransportClose \<or> e = CallDisconnect
                    \<or> (\<exists>created. e = ReconnectTimeout created) then False
            else b"
  from Cons.prems(1) have r: "run P (step P c e) es = Some c'" and en: "enabled c e"
    by (auto split: if_splits)
  have k: "?b \<longrightarrow> ws (step P c e) = Some OPEN \<and> isConnected (step P c e)"
    using Cons.prems(2) en
    by (cases e) (auto simp: conn_defs onmessage_fields Let_def)
  from Cons.prems(3) have o: "open_after ?b es"
    by (simp only: open_after_step)
  from Cons.IH [OF r k o] show ?case .
qed

text \<open>
  C4, as the code has it. The constructor arms the ping timer with a period of 30 s. In
  every run of a constructed client (each event occurring in a state in which it can
  occur, no message one the model leaves open): as long as \<open>disconnect()\<close> has not been called the
  timer stays armed, and once it has been called the timer is cleared for good. While the
  session is open, a tick of the timer writes one \<open>ping\<close> to the socket; a client that is
  not connected writes nothing on a tick. A \<open>pong\<close> is logged as received and changes
  nothing else: the client has no field for the time of the last acknowledgment.
\<close>

theorem ping_while_open_and_pong_ignored:
  assumes "run P (constructor created d) es = Some c"
  shows "pingPeriod = 30000
       \<and> (CallDisconnect \<notin> set es \<longrightarrow> pingInterval c = Some pingPeriod \<and> enabled c PingTick)
       \<and> (CallDisconnect \<in> set es \<longrightarrow> pingInterval c = None \<and> \<not> enabled c PingTick)
       \<and> (session_open es \<longrightarrow>
            ws c = Some OPEN \<and> isConnected c
            \<and> step P c PingTick = c\<lparr>sent := sent c @ [msg_ping]\<rparr>)
       \<and> (\<not> isConnected c \<longrightarrow> step P c PingTick = c)
       \<and> (get data ''type'' = Some (JStr ''pong'') \<longrightarrow>
            onmessage P (Parsed data) c
              = Done (console_write (LogReceived (Some (JStr ''pong''))) c))"
proof -
  have p: "pingInterval c = (if CallDisconnect \<in> set es then None else Some pingPeriod)"
    using run_pingInterval [OF assms] by (simp add: conn_defs Let_def)
  have o: "session_open es \<longrightarrow> ws c = Some OPEN \<and> isConnected c"
    using run_open [OF assms, of False] by (simp add: session_open_def)
  have t: "ws c = Some OPEN \<and> isConnected c \<longrightarrow> step P c PingTick = c\<lparr>sent := sent c @ [msg_ping]\<rparr>"
    by (simp add: conn_defs)
  have n: "\<not> isConnected c \<longrightarrow> step P c PingTick = c"
    by (simp add: conn_defs)
  have g: "get data ''type'' = Some (JStr ''pong'') \<longrightarrow>
            onmessage P (Parsed data) c
              = Done (console_write (LogReceived (Some (JStr ''pong''))) c)"
    by (auto simp: onmessage_def handleMessage_def Let_def)
  have q: "pingPeriod = 30000"
    by (simp add: pingPeriod_def)
  from p o t n g q show ?thesis
    by (simp only: enabled.simps) auto
qed

theorem ping_while_open_witness:
  "run P0 (constructor True page1) [TransportOpen] = Some client_open
   \<and> CallDisconnect \<notin> set [TransportOpen]
   \<and> session_open [TransportOpen]
   \<and> enabled client_open PingTick
   \<and> sent (step P0 client_open PingTick) = [msg_get_metrics, msg_ping]
   \<and> get (JObj [(''type'', JStr ''pong'')]) ''type'' = Some (JStr ''pong'')
   \<and> state_of (onmessage P0 (Parsed (JObj [(''type'', JStr ''pong'')])) client_open)
       = console_write (LogReceived (Some (JStr ''pong''))) client_open"
proof -
  have r: "run P0 (constructor True page1) [TransportOpen] = Some client_open"
    by (simp add: client_open_def conn_defs)
  have s: "session_open [TransportOpen]"
    by (simp add: session_open_def)
  have f: "sent client_open = [msg_get_metrics]"
    by (simp add: client_open_def conn_defs)
  from ping_while_open_and_pong_ignored [OF r, of "JObj [(''type'', JStr ''pong'')]"] s f
  show ?thesis
    using r by (simp add: get_def)
qed

text \<open>
  Against C4 as stated: after a \<open>pong\<close> every field of an open client is what it was, the
  console apart. And a client on which \<open>disconnect()\<close> was called reconnects by itself, is
  open and connected again, and has no ping timer.
\<close>

theorem pong_updates_nothing:
  "(state_of (onmessage P0 (Parsed (JObj [(''type'', JStr ''pong'')])) client_open))
     \<lparr>console := console client_open\<rparr> = client_open
   \<and> map_option ws (run P0 (constructor True page0)
        [CallDisconnect, TransportClose, ReconnectTimeout True, TransportOpen]) = Some (Some OPEN)
   \<and> map_option isConnected (run P0 (constructor True page0)
        [CallDisconnect, TransportClose, ReconnectTimeout True, TransportOpen]) = Some True
   \<and> map_option pingInterval (run P0 (constructor True page0)
        [CallDisconnect, TransportClose, ReconnectTimeout True, TransportOpen]) = Some None"
  by (simp add: onmessage_def handleMessage_def Let_def get_def console_write_def conn_defs)

subsection \<open>Frames that are dropped\<close>

text \<open>
  C7, as the code has it. For every malformed frame, \<open>onmessage\<close> returns normally, no
  field of the client other than the console changes (the page in particular), and the
  console holds exactly one more record of a drop: the frame is dropped and logged.
\<close>

theorem malformed_frame_dropped:
  assumes "malformed f"
  shows "\<exists>c'. onmessage P f c = Done c' \<and> c'\<lparr>console := console c\<rparr> = c
            \<and> document c' = document c \<and> drop_records c' = drop_records c + 1"
proof (cases f)
  case Unparseable
  then show ?thesis
    by (simp add: onmessage_def console_write_def drop_records_def)
next
  case (Parsed data)
  with assms have u: "\<not> recognized (get data ''type'')"
    by (simp add: malformed_def)
  show ?thesis
  proof (cases "data = JNull")
    case True
    with Parsed show ?thesis
      by (simp add: onmessage_def handleMessage_def console_write_def drop_records_def)
  next
    case False
    with Parsed u show ?thesis
      by (simp add: onmessage_def handleMessage_def console_write_def drop_records_def
          recognized_def Let_def)
  qed
qed

theorem malformed_frame_witness:
  "malformed (Parsed (JObj [(''type'', JStr ''hello'')]))
   \<and> (\<exists>c'. onmessage P0 (Parsed (JObj [(''type'', JStr ''hello'')])) client_open = Done c'
          \<and> document c' = document client_open \<and> drop_records c' = drop_records client_open + 1)
   \<and> malformed Unparseable \<and> malformed (Parsed JNull) \<and> malformed (Parsed (JArr []))"
proof -
  have m: "malformed (Parsed (JObj [(''type'', JStr ''hello'')]))"
    by (simp add: malformed_def recognized_def get_def)
  from malformed_frame_dropped [OF m, of P0 client_open]
  have "\<exists>c'. onmessage P0 (Parsed (JObj [(''type'', JStr ''hello'')])) client_open = Done c'
          \<and> document c' = document client_open \<and> drop_records c' = drop_records client_open + 1"
    by blast
  moreover have "malformed Unparseable \<and> malformed (Parsed JNull) \<and> malformed (Parsed (JArr []))"
    by (simp add: malformed_def recognized_def get_def)
  ultimately show ?thesis using m by blast
qed

text \<open>
  Against C7 as stated: after a frame that does not parse and after a frame of an unknown
  type, every field of the client is what it was, the console apart. The class has no
  field that counts dropped frames.
\<close>

theorem malformed_frames_not_counted:
  "(state_of (onmessage P0 Unparseable client_open))\<lparr>console := console client_open\<rparr> = client_open
   \<and> (state_of (onmessage P0 (Parsed (JObj [(''type'', JStr ''hello'')])) client_open))
        \<lparr>console := console client_open\<rparr> = client_open"
  by (simp add: onmessage_def handleMessage_def Let_def get_def console_write_def)

text \<open>
  C10. A \<open>metric_update\<close> whose \<open>agent_id\<close> is missing (or falsy) reaches the call of the
  method the class does not have; the \<open>TypeError\<close> is caught by \<open>onmessage\<close> and logged, and
  the page is what it was.
\<close>

theorem metric_update_without_agent_id_dropped:
  assumes "get data ''type'' = Some (JStr ''metric_update'')"
    and "\<not> truthy (get data ''agent_id'')"
  shows "handleMetricUpdate P data d = Thrown TypeError d
       \<and> onmessage P (Parsed data) c
           = Done (console_write (ErrParsing TypeError)
                     (console_write (LogReceived (Some (JStr ''metric_update''))) c))
       \<and> document (step P c (TransportMessage (Parsed data))) = document c"
proof -
  have h: "handleMetricUpdate P data d = Thrown TypeError d" for d
    using assms(2) by (auto simp: handleMetricUpdate_def split: option.splits)
  from assms(1) have "data \<noteq> JNull"
    by auto
  with h assms(1) show ?thesis
    by (simp add: onmessage_def handleMessage_def on_document_def Let_def console_write_def)
qed

theorem metric_update_without_agent_id_witness:
  "get (JObj [(''type'', JStr ''metric_update''), (''task_completion_rate'', JNum 90)]) ''type''
     = Some (JStr ''metric_update'')
   \<and> \<not> truthy (get (JObj [(''type'', JStr ''metric_update''), (''task_completion_rate'', JNum 90)])
                 ''agent_id'')
   \<and> document (step P0 client_open (TransportMessage (Parsed
        (JObj [(''type'', JStr ''metric_update''), (''task_completion_rate'', JNum 90)]))))
       = document client_open"
  using metric_update_without_agent_id_dropped
    [of "JObj [(''type'', JStr ''metric_update''), (''task_completion_rate'', JNum 90)]"
        P0 page1 client_open]
  by (simp add: get_def console_write_def)

subsection \<open>Partial system updates\<close>

lemma step_message_system_update:
  "data \<noteq> JNull \<Longrightarrow> get data ''type'' = Some (JStr ''system_update'') \<Longrightarrow>
   document (step P c (TransportMessage (Parsed data)))
     = state_of (handleSystemUpdate P data (document c))"
  by (simp add: onmessage_def handleMessage_def on_document_def Let_def console_write_def
      split: outcome.splits)

lemma updateMetricValue_frame:
  "i \<noteq> ''agent-grid'' \<Longrightarrow>
   (\<forall>j. j \<noteq> i \<longrightarrow> getElementById (updateMetricValue i v d) j = getElementById d j)
   \<and> agent_grid (updateMetricValue i v d) = agent_grid d
   \<and> kanban (updateMetricValue i v d) = kanban d
   \<and> pipeline (updateMetricValue i v d) = pipeline d
   \<and> status_indicator (updateMetricValue i v d) = status_indicator d
   \<and> status_text (updateMetricValue i v d) = status_text d"
  by (auto simp: updateMetricValue_def flashElement_def set_textContent_def update_element_def
      getElementById_def split: option.splits)

lemma set_textContent_frame:
  "i \<noteq> ''agent-grid'' \<Longrightarrow>
   (\<forall>j. j \<noteq> i \<longrightarrow> getElementById (set_textContent i v d) j = getElementById d j)
   \<and> agent_grid (set_textContent i v d) = agent_grid d
   \<and> kanban (set_textContent i v d) = kanban d
   \<and> pipeline (set_textContent i v d) = pipeline d
   \<and> status_indicator (set_textContent i v d) = status_indicator d
   \<and> status_text (set_textContent i v d) = status_text d"
  by (auto simp: set_textContent_def update_element_def getElementById_def split: option.splits)

lemma handleSystemUpdate_frame:
  "(get data ''system_tcr'' = None \<longrightarrow>
      getElementById (state_of (handleSystemUpdate P data d)) ''tcr'' = getElementById d ''tcr'')
   \<and> (get data ''system_velocity'' = None \<longrightarrow>
      getElementById (state_of (handleSystemUpdate P data d)) ''velocity''
        = getElementById d ''velocity'')
   \<and> (get data ''total_agents'' = None \<longrightarrow>
      getElementById (state_of (handleSystemUpdate P data d)) ''total-agents''
        = getElementById d ''total-agents'')
   \<and> (\<forall>i. i \<noteq> ''tcr'' \<and> i \<noteq> ''velocity'' \<and> i \<noteq> ''total-agents'' \<longrightarrow>
        getElementById (state_of (handleSystemUpdate P data d)) i = getElementById d i)
   \<and> agent_grid (state_of (handleSystemUpdate P data d)) = agent_grid d
   \<and> kanban (state_of (handleSystemUpdate P data d)) = kanban d
   \<and> pipeline (state_of (handleSystemUpdate P data d)) = pipeline d
   \<and> status_indicator (state_of (handleSystemUpdate P data d)) = status_indicator d
   \<and> status_text (state_of (handleSystemUpdate P data d)) = status_text d
   \<and> (get data ''system_tcr'' = None \<and> get data ''system_velocity'' = None
        \<and> get data ''total_agents'' = None \<longrightarrow> state_of (handleSystemUpdate P data d) = d)"
  by (auto simp: handleSystemUpdate_def updateMetricValue_frame set_textContent_frame
      split: option.splits json.splits)

text \<open>
  C6. Applying a \<open>system_update\<close> leaves the element of every absent field as it was:
  \<open>#tcr\<close> for \<open>system_tcr\<close>, \<open>#velocity\<close> for \<open>system_velocity\<close>, \<open>#total-agents\<close> for
  \<open>total_agents\<close>. It changes no other element and no other part of the page, and with
  all three fields absent the page is what it was. This holds also when the handler raises
  on the way.
\<close>

theorem system_update_changes_only_present_fields:
  assumes "get data ''type'' = Some (JStr ''system_update'')"
  shows "(get data ''system_tcr'' = None \<longrightarrow>
            getElementById (document (step P c (TransportMessage (Parsed data)))) ''tcr''
              = getElementById (document c) ''tcr'')
       \<and> (get data ''system_velocity'' = None \<longrightarrow>
            getElementById (document (step P c (TransportMessage (Parsed data)))) ''velocity''
              = getElementById (document c) ''velocity'')
       \<and> (get data ''total_agents'' = None \<longrightarrow>
            getElementById (document (step P c (TransportMessage (Parsed data)))) ''total-agents''
              = getElementById (document c) ''total-agents'')
       \<and> (\<forall>i. i \<noteq> ''tcr'' \<and> i \<noteq> ''velocity'' \<and> i \<noteq> ''total-agents'' \<longrightarrow>
            getElementById (document (step P c (TransportMessage (Parsed data)))) i
              = getElementById (document c) i)
       \<and> agent_grid (document (step P c (TransportMessage (Parsed data)))) = agent_grid (document c)
       \<and> kanban (document (step P c (TransportMessage (Parsed data)))) = kanban (document c)
       \<and> pipeline (document (step P c (TransportMessage (Parsed data)))) = pipeline (document c)
       \<and> status_indicator (document (step P c (TransportMessage (Parsed data))))
           = status_indicator (document c)
       \<and> status_text (document (step P c (TransportMessage (Parsed data))))
           = status_text (document c)
       \<and> (get data ''system_tcr'' = None \<and> get data ''system_velocity'' = None
            \<and> get data ''total_agents'' = None \<longrightarrow>
            document (step P c (TransportMessage (Parsed data))) = document c)"
proof -
  from assms have n: "data \<noteq> JNull"
    by auto
  have e: "document (step P c (TransportMessage (Parsed data)))
             = state_of (handleSystemUpdate P data (document c))"
    by (rule step_message_system_update [OF n assms])
  show ?thesis
    unfolding e by (rule handleSystemUpdate_frame)
qed

theorem system_update_witness:
  "get frame_velocity ''type'' = Some (JStr ''system_update'')
   \<and> get frame_velocity ''system_tcr'' = None \<and> get frame_velocity ''total_agents'' = None
   \<and> getElementById (document (step P0 client_open (TransportMessage (Parsed frame_velocity)))) ''tcr''
       = Some (el ''0.0%'')
   \<and> getElementById (document (step P0 client_open (TransportMessage (Parsed frame_velocity))))
         ''total-agents'' = Some (el ''0'')
   \<and> map_option textContent
         (getElementById (document (step P0 client_open (TransportMessage (Parsed frame_velocity))))
            ''velocity'') = Some ''12''"
proof -
  have v: "round_text P0 (JNum 12) = Some ''12''"
    by code_simp
  have d: "document client_open = updateConnectionStatus True page1"
    by (simp add: client_open_def conn_defs)
  show ?thesis
    using system_update_changes_only_present_fields [of frame_velocity P0 client_open]
    apply (simp add: frame_velocity_def get_def d)
    apply (simp add: onmessage_def handleMessage_def on_document_def handleSystemUpdate_def get_def
        Let_def console_write_def updateMetricValue_def getElementById_def d
        flashElement_def set_textContent_def update_element_def v updateConnectionStatus_def page1_def)
    done
qed

subsection \<open>Metric updates\<close>













subsection \<open>What a frame is checked for\<close>






subsection \<open>Initial data\<close>






















end
